theory Spec2Isabelle
  imports Main "HOL-Library.Word"
begin

unbundle bit_operations_syntax

section \<open>The poppler Python binding: \<^verbatim>\<open>popplermodule.c\<close> and \<^verbatim>\<open>pypoppler-private.h\<close>\<close>

subsection \<open>The version macro of \<^verbatim>\<open>pypoppler-private.h\<close>\<close>

text \<open>
  \<^verbatim>\<open>#define PYCAIRO_VERSION_HEX ((PYCAIRO_MAJOR_VERSION<<24)|(PYCAIRO_MINOR_VERSION<<16)|(PYCAIRO_MICRO_VERSION<<8))\<close>

  The three component macros come from \<^verbatim>\<open>config.h\<close>, which is generated at build time, so
  they are the parameters of the definition. They are integer constants, and the expression
  is C \<^verbatim>\<open>int\<close> arithmetic: 32-bit words, read in two's complement (\<open>sint\<close>) and compared as
  signed integers (\<open><s\<close>). A left shift keeps the low 32 bits, which is what the compiled
  code does when the shifted value does not fit; \<^verbatim>\<open>|\<close> associates to the left.
\<close>

definition PYCAIRO_VERSION_HEX :: "32 word \<Rightarrow> 32 word \<Rightarrow> 32 word \<Rightarrow> 32 word" where
  "PYCAIRO_VERSION_HEX PYCAIRO_MAJOR_VERSION PYCAIRO_MINOR_VERSION PYCAIRO_MICRO_VERSION =
     ((push_bit 24 PYCAIRO_MAJOR_VERSION) OR (push_bit 16 PYCAIRO_MINOR_VERSION))
       OR (push_bit 8 PYCAIRO_MICRO_VERSION)"

text \<open>A version component that is not negative and lies below the bound \<open>n\<close>.\<close>

definition component_below :: "int \<Rightarrow> 32 word \<Rightarrow> bool" where
  "component_below n x = (0 \<le> sint x \<and> sint x < n)"


subsection \<open>Python objects and the state of the process\<close>

text \<open>
  \<^verbatim>\<open>popplermodule.c\<close> holds one function, \<^verbatim>\<open>initpoppler\<close>, which the Python 2 interpreter
  calls when the extension module is imported. It only calls into the interpreter, pycairo,
  pygobject and the generated part of the binding, so the model is the state those calls
  act on, and one definition per callee with the contract the C API documents.

  Python values, as far as the function touches them: the integers and the tuple that
  \<^verbatim>\<open>Py_BuildValue\<close> makes, the name and the empty docstring of a new module, the built-in
  function objects made from the method table, and objects made by the generated code
  (classes, enumeration values), which are opaque here.
\<close>

datatype pyobj =
    PyInt int
  | PyString string
  | PyNone
  | PyTuple "pyobj list"
  | PyCFunction string
  | PyForeign nat

type_synonym pydict = "string \<rightharpoonup> pyobj"

text \<open>A pending exception, by its text; \<open>None\<close> in the error indicator means no error.\<close>

type_synonym pyexc = string

text \<open>
  A \<^verbatim>\<open>PyObject\<close> pointer to a module is modelled by the key of the module in
  \<^verbatim>\<open>sys.modules\<close>: \<^verbatim>\<open>Py_InitModule\<close> returns the object stored there. The dictionary that
  \<^verbatim>\<open>PyModule_GetDict\<close> returns is the module's own namespace, not a copy, so a pointer to it
  is modelled by the same key.
\<close>

type_synonym module_ref = string

text \<open>
  The calls \<^verbatim>\<open>initpoppler\<close> makes, with their arguments. The log of calls is not program
  state; it is kept to state in which order the function does its work.
\<close>

datatype call =
    Called_Pycairo_IMPORT
  | Called_init_pygobject
  | Called_Py_InitModule string
  | Called_PyModule_GetDict module_ref
  | Called_py_poppler_register_classes module_ref
  | Called_py_poppler_add_constants module_ref string
  | Called_Py_BuildValue string "int list"
  | Called_PyModule_AddObject module_ref string pyobj
  | Called_PyErr_Occurred
  | Called_Py_FatalError string

text \<open>
  The process-wide state: the file-scope pointer \<^verbatim>\<open>Pycairo_CAPI\<close> of line 30 (\<open>None\<close> is
  \<^verbatim>\<open>NULL\<close>), the interpreter's module registry \<^verbatim>\<open>sys.modules\<close> (each module by its
  namespace), the interpreter's error indicator, and the log of calls. The registry is
  followed for what \<^verbatim>\<open>initpoppler\<close> itself puts there; the modules that pycairo's and
  pygobject's own initialisation import are not tracked.
\<close>

record process =
  Pycairo_CAPI :: "nat option"
  sys_modules :: "string \<rightharpoonup> pydict"
  err_indicator :: "pyexc option"
  calls :: "call list"

text \<open>
  What is not in the two source files is a parameter:
  \<^item> \<open>cairo_CAPI\<close>: what \<^verbatim>\<open>PyCObject_Import("cairo", "CAPI")\<close> gives, the address of
    pycairo's C API or an import error;
  \<^item> \<open>pygobject_error\<close>: the error of pygobject's initialisation, if it fails;
  \<^item> \<open>py_poppler_functions\<close>: the names of the method table (\<^verbatim>\<open>extern\<close>, line 35);
  \<^item> \<open>register_classes_body\<close> and \<open>add_constants_body\<close>: the generated functions declared
    on lines 32 and 33. Each is handed a dictionary (the second also the prefix to strip)
    and may change that dictionary and the error indicator in any way;
  \<^item> the three version macros of \<^verbatim>\<open>config.h\<close>, integer constants of any size.
\<close>

record externals =
  cairo_CAPI :: "pyexc + nat"
  pygobject_error :: "pyexc option"
  py_poppler_functions :: "string list"
  register_classes_body :: "pydict \<Rightarrow> pyexc option \<Rightarrow> pydict \<times> pyexc option"
  add_constants_body :: "string \<Rightarrow> pydict \<Rightarrow> pyexc option \<Rightarrow> pydict \<times> pyexc option"
  PYPOPPLER_MAJOR_VERSION :: int
  PYPOPPLER_MINOR_VERSION :: int
  PYPOPPLER_MICRO_VERSION :: int

text \<open>
  A call of \<^verbatim>\<open>initpoppler\<close> either returns to the interpreter or ends the process:
  \<^verbatim>\<open>Py_FatalError\<close> prints its message and calls \<^verbatim>\<open>abort()\<close>.
\<close>

datatype outcome =
    is_Returned: Returned (final: process)
  | is_Aborted: Aborted (message: string) (final: process)

definition called :: "call \<Rightarrow> process \<Rightarrow> process" where
  "called c s = s\<lparr>calls := calls s @ [c]\<rparr>"


subsection \<open>The callees\<close>

text \<open>
  \<^verbatim>\<open>Pycairo_IMPORT\<close> is a macro of \<^verbatim>\<open>pycairo.h\<close>: the assignment
  \<^verbatim>\<open>Pycairo_CAPI = PyCObject_Import("cairo", "CAPI")\<close> (with a cast). The import gives
  \<^verbatim>\<open>NULL\<close> with an exception set when it fails; the pointer is assigned either way.
\<close>

definition Pycairo_IMPORT :: "externals \<Rightarrow> process \<Rightarrow> process" where
  "Pycairo_IMPORT ext s =
     (case cairo_CAPI ext of
        Inr p \<Rightarrow> called Called_Pycairo_IMPORT (s\<lparr>Pycairo_CAPI := Some p\<rparr>)
      | Inl e \<Rightarrow> called Called_Pycairo_IMPORT (s\<lparr>Pycairo_CAPI := None, err_indicator := Some e\<rparr>))"

text \<open>
  \<^verbatim>\<open>init_pygobject\<close> is a macro of \<^verbatim>\<open>pygobject.h\<close>, not a function: it imports pygobject
  with \<^verbatim>\<open>PyImport_ImportModule\<close> and, when that fails, leaves the exception set and executes
  \<^verbatim>\<open>return\<close> in the function that uses it. The result \<open>Inl\<close> is that early return from
  \<^verbatim>\<open>initpoppler\<close>, \<open>Inr\<close> is control going on to line 46. This return is the only way in
  which \<^verbatim>\<open>initpoppler\<close> hands an error to its caller. When the import succeeds no error is
  pending afterwards: the interpreter's import clears the error indicator, so an error that
  the pycairo import has left is gone at line 46.
\<close>

definition init_pygobject :: "externals \<Rightarrow> process \<Rightarrow> process + process" where
  "init_pygobject ext s =
     (case pygobject_error ext of
        None \<Rightarrow> Inr (called Called_init_pygobject (s\<lparr>err_indicator := None\<rparr>))
      | Some e \<Rightarrow> Inl (called Called_init_pygobject (s\<lparr>err_indicator := Some e\<rparr>)))"

text \<open>
  \<^verbatim>\<open>Py_InitModule(name, methods)\<close>: the module of that name in \<^verbatim>\<open>sys.modules\<close>, made and
  inserted first if it is not there (\<^verbatim>\<open>PyImport_AddModule\<close>; a new module has only
  \<^verbatim>\<open>__name__\<close> and \<^verbatim>\<open>__doc__\<close>), then one built-in function object per entry of the method
  table stored in its namespace. The interpreter's own allocations are taken to succeed, so
  the call returns the module; the module is imported at top level, so its name is not
  qualified by a package.
\<close>

definition PyModule_New :: "string \<Rightarrow> pydict" where
  "PyModule_New name = [''__name__'' \<mapsto> PyString name, ''__doc__'' \<mapsto> PyNone]"

definition PyImport_AddModule :: "string \<Rightarrow> process \<Rightarrow> module_ref \<times> process" where
  "PyImport_AddModule name s =
     (case sys_modules s name of
        Some d \<Rightarrow> (name, s)
      | None \<Rightarrow> (name, s\<lparr>sys_modules := (sys_modules s)(name \<mapsto> PyModule_New name)\<rparr>))"

fun add_methods :: "string list \<Rightarrow> pydict \<Rightarrow> pydict" where
  "add_methods [] d = d"
| "add_methods (ml # methods) d = add_methods methods (d(ml \<mapsto> PyCFunction ml))"

definition update_module_dict :: "module_ref \<Rightarrow> (pydict \<Rightarrow> pydict) \<Rightarrow> process \<Rightarrow> process" where
  "update_module_dict m f s =
     (case sys_modules s m of
        None \<Rightarrow> s
      | Some d \<Rightarrow> s\<lparr>sys_modules := (sys_modules s)(m \<mapsto> f d)\<rparr>)"

definition Py_InitModule :: "string \<Rightarrow> string list \<Rightarrow> process \<Rightarrow> module_ref \<times> process" where
  "Py_InitModule name methods s =
     (let (m, s') = PyImport_AddModule name s
      in (m, called (Called_Py_InitModule name) (update_module_dict m (add_methods methods) s')))"

definition PyModule_GetDict :: "module_ref \<Rightarrow> process \<Rightarrow> module_ref \<times> process" where
  "PyModule_GetDict m s = (m, called (Called_PyModule_GetDict m) s)"

text \<open>
  The two generated functions act on the dictionary they are given (for
  \<^verbatim>\<open>py_poppler_add_constants\<close>, the namespace of the module it is given) and on the error
  indicator, through the parameters \<open>register_classes_body\<close> and \<open>add_constants_body\<close>.
\<close>

definition py_poppler_register_classes :: "externals \<Rightarrow> module_ref \<Rightarrow> process \<Rightarrow> process" where
  "py_poppler_register_classes ext d s =
     called (Called_py_poppler_register_classes d)
       (case sys_modules s d of
          None \<Rightarrow> s
        | Some dict \<Rightarrow>
            (let (dict', err') = register_classes_body ext dict (err_indicator s)
             in s\<lparr>sys_modules := (sys_modules s)(d \<mapsto> dict'), err_indicator := err'\<rparr>))"

definition py_poppler_add_constants ::
    "externals \<Rightarrow> module_ref \<Rightarrow> string \<Rightarrow> process \<Rightarrow> process" where
  "py_poppler_add_constants ext module strip_prefix s =
     called (Called_py_poppler_add_constants module strip_prefix)
       (case sys_modules s module of
          None \<Rightarrow> s
        | Some dict \<Rightarrow>
            (let (dict', err') = add_constants_body ext strip_prefix dict (err_indicator s)
             in s\<lparr>sys_modules := (sys_modules s)(module \<mapsto> dict'), err_indicator := err'\<rparr>))"

text \<open>
  \<^verbatim>\<open>Py_BuildValue("iii", a, b, c)\<close>: the tuple of three Python integers. The format \<^verbatim>\<open>i\<close>
  reads a C \<^verbatim>\<open>int\<close> from the arguments, so of an argument that is an integer constant
  outside the range of a 32-bit \<^verbatim>\<open>int\<close> only the low 32 bits are read, in two's complement:
  \<open>C_int\<close> is the value read, \<open>fits_C_int\<close> says that it is the value passed.
\<close>

definition C_int :: "int \<Rightarrow> int" where
  "C_int v = (v + 2 ^ 31) mod 2 ^ 32 - 2 ^ 31"

definition fits_C_int :: "int \<Rightarrow> bool" where
  "fits_C_int v = (- (2 ^ 31) \<le> v \<and> v < 2 ^ 31)"

definition Py_BuildValue_iii :: "int \<Rightarrow> int \<Rightarrow> int \<Rightarrow> process \<Rightarrow> pyobj \<times> process" where
  "Py_BuildValue_iii a b c s =
     (PyTuple [PyInt (C_int a), PyInt (C_int b), PyInt (C_int c)],
      called (Called_Py_BuildValue ''iii'' [a, b, c]) s)"

text \<open>
  \<^verbatim>\<open>PyModule_AddObject(m, name, o)\<close> stores \<open>o\<close> under \<open>name\<close> in the namespace of \<open>m\<close> and
  returns 0; when \<open>m\<close> is not a module it sets a \<^verbatim>\<open>TypeError\<close> and returns -1.
\<close>

definition PyModule_AddObject ::
    "module_ref \<Rightarrow> string \<Rightarrow> pyobj \<Rightarrow> process \<Rightarrow> int \<times> process" where
  "PyModule_AddObject m name obj s =
     (case sys_modules s m of
        None \<Rightarrow>
          (- 1, called (Called_PyModule_AddObject m name obj)
             (s\<lparr>err_indicator :=
                  Some ''TypeError: PyModule_AddObject() needs module as first arg''\<rparr>))
      | Some dict \<Rightarrow>
          (0, called (Called_PyModule_AddObject m name obj)
             (s\<lparr>sys_modules := (sys_modules s)(m \<mapsto> dict(name \<mapsto> obj))\<rparr>)))"

definition PyErr_Occurred :: "process \<Rightarrow> bool \<times> process" where
  "PyErr_Occurred s = (err_indicator s \<noteq> None, called Called_PyErr_Occurred s)"

definition Py_FatalError :: "string \<Rightarrow> process \<Rightarrow> outcome" where
  "Py_FatalError msg s = Aborted msg (called (Called_Py_FatalError msg) s)"

text \<open>Reading an attribute of a module of the registry, as \<^verbatim>\<open>poppler.pypoppler_version\<close> does.\<close>

definition module_attr :: "process \<Rightarrow> module_ref \<Rightarrow> string \<Rightarrow> pyobj option" where
  "module_attr s m name = (case sys_modules s m of None \<Rightarrow> None | Some dict \<Rightarrow> dict name)"


subsection \<open>\<^verbatim>\<open>initpoppler\<close>\<close>

text \<open>
  Lines 46 to 57: the module is made, the classes are registered in its dictionary, the
  constants are added to the module with the prefix \<^verbatim>\<open>"POPPLER_"\<close>, and the version tuple is
  stored. The result of \<^verbatim>\<open>PyModule_AddObject\<close> is dropped, as in the source.
\<close>

definition register_poppler_module :: "externals \<Rightarrow> process \<Rightarrow> process" where
  "register_poppler_module ext s2 =
     (let (m, s3) = Py_InitModule ''poppler'' (py_poppler_functions ext) s2;
          (d, s4) = PyModule_GetDict m s3;
          s5 = py_poppler_register_classes ext d s4;
          s6 = py_poppler_add_constants ext m ''POPPLER_'' s5;
          (v, s7) = Py_BuildValue_iii (PYPOPPLER_MAJOR_VERSION ext) (PYPOPPLER_MINOR_VERSION ext)
                      (PYPOPPLER_MICRO_VERSION ext) s6;
          (r, s8) = PyModule_AddObject m ''pypoppler_version'' v s7
      in s8)"

text \<open>
  The whole function, lines 38 to 62: the pycairo import, the pygobject initialisation with
  its early return, lines 46 to 57, and the check of lines 59 to 61.
\<close>

definition initpoppler :: "externals \<Rightarrow> process \<Rightarrow> outcome" where
  "initpoppler ext s0 =
     (let s1 = Pycairo_IMPORT ext s0 in
      case init_pygobject ext s1 of
        Inl s \<Rightarrow> Returned s
      | Inr s2 \<Rightarrow>
         (let s8 = register_poppler_module ext s2;
              (pending, s9) = PyErr_Occurred s8
          in if pending then Py_FatalError ''can't initialise module globalkeys'' s9
             else Returned s9))"

text \<open>
  The state in which control reaches the check of line 59, if it does: \<open>None\<close> when
  \<^verbatim>\<open>init_pygobject\<close> has returned before.
\<close>

definition state_after_registration :: "externals \<Rightarrow> process \<Rightarrow> process option" where
  "state_after_registration ext s0 =
     (case init_pygobject ext (Pycairo_IMPORT ext s0) of
        Inl s \<Rightarrow> None
      | Inr s2 \<Rightarrow> Some (register_poppler_module ext s2))"


subsection \<open>Concrete runs\<close>

text \<open>
  A process that has imported nothing yet, and six settings of the parameters: everything
  works (pypoppler 0.12.1, one function, one class, one constant whose name loses the
  prefix); the constant export raises; pygobject is missing; pycairo is missing; both are
  missing; the major version is \<open>2 ^ 31\<close>, one more than the largest \<^verbatim>\<open>int\<close>.
\<close>

definition fresh_process :: process where
  "fresh_process =
     \<lparr>Pycairo_CAPI = None, sys_modules = Map.empty, err_indicator = None, calls = []\<rparr>"

definition ext_ok :: externals where
  "ext_ok =
     \<lparr>cairo_CAPI = Inr 1, pygobject_error = None,
      py_poppler_functions = [''document_new_from_file''],
      register_classes_body = (\<lambda>d e. (d(''Document'' \<mapsto> PyForeign 0), e)),
      add_constants_body = (\<lambda>strip_prefix d e.
        (d(drop (length strip_prefix) ''POPPLER_ORIENTATION_PORTRAIT'' \<mapsto> PyInt 0), e)),
      PYPOPPLER_MAJOR_VERSION = 0, PYPOPPLER_MINOR_VERSION = 12, PYPOPPLER_MICRO_VERSION = 1\<rparr>"

definition ext_raise :: externals where
  "ext_raise = ext_ok\<lparr>add_constants_body := (\<lambda>strip_prefix d e. (d, Some ''RuntimeError''))\<rparr>"

definition ext_no_gobject :: externals where
  "ext_no_gobject = ext_ok\<lparr>pygobject_error := Some ''ImportError: could not import gobject''\<rparr>"

definition ext_no_cairo :: externals where
  "ext_no_cairo = ext_ok\<lparr>cairo_CAPI := Inl ''ImportError: No module named cairo''\<rparr>"

definition ext_big_version :: externals where
  "ext_big_version = ext_ok\<lparr>PYPOPPLER_MAJOR_VERSION := 2147483648\<rparr>"

definition ext_no_imports :: externals where
  "ext_no_imports =
     ext_ok\<lparr>cairo_CAPI := Inl ''ImportError: No module named cairo'',
            pygobject_error := Some ''ImportError: could not import gobject''\<rparr>"



section \<open>Properties of the version macro\<close>

text \<open>A value below \<open>2 ^ n\<close> shares no bit with a value shifted left by \<open>n\<close>, so OR adds.\<close>

lemma or_low_is_add:
  fixes a b :: nat
  assumes "b < 2 ^ n"
  shows "push_bit n a OR b = push_bit n a + b"
proof -
  have b: "take_bit n b = b"
    using assms by (simp add: take_bit_nat_eq_self)
  have "\<not> bit (push_bit n a) k \<or> \<not> bit b k" for k
  proof (cases "k < n")
    case True
    then show ?thesis by (simp add: bit_push_bit_iff)
  next
    case False
    have "bit b k = bit (take_bit n b) k" by (simp only: b)
    with False show ?thesis by (simp add: bit_take_bit_iff)
  qed
  then show ?thesis by (rule disjunctive_add [symmetric])
qed

text \<open>On unbounded numbers, byte-sized minor and micro fields do not overlap.\<close>

lemma packed_fields_sum:
  fixes major minor micro :: nat
  assumes "minor < 256" "micro < 256"
  shows "(push_bit 24 major OR push_bit 16 minor) OR push_bit 8 micro
           = major * 2 ^ 24 + minor * 2 ^ 16 + micro * 2 ^ 8"
proof -
  have 1: "push_bit 24 major OR push_bit 16 minor = push_bit 24 major + push_bit 16 minor"
    using assms(1) by (intro or_low_is_add) (simp add: push_bit_eq_mult)
  have 2: "push_bit 24 major + push_bit 16 minor = push_bit 16 (push_bit 8 major + minor)"
    by (simp add: push_bit_eq_mult)
  have 3: "push_bit 16 (push_bit 8 major + minor) OR push_bit 8 micro
         = push_bit 16 (push_bit 8 major + minor) + push_bit 8 micro"
    using assms(2) by (intro or_low_is_add) (simp add: push_bit_eq_mult)
  show ?thesis
    unfolding 1 2 3 by (simp add: push_bit_eq_mult)
qed

text \<open>The macro on 32-bit words computes the word of the unbounded value.\<close>

lemma PYCAIRO_VERSION_HEX_of_nat:
  "PYCAIRO_VERSION_HEX (of_nat major) (of_nat minor) (of_nat micro)
     = of_nat ((push_bit 24 major OR push_bit 16 minor) OR push_bit 8 micro)"
  by (simp add: PYCAIRO_VERSION_HEX_def of_nat_push_bit of_nat_or_eq)

lemma PYCAIRO_VERSION_HEX_low_bits:
  "take_bit 8 (PYCAIRO_VERSION_HEX major minor micro) = 0"
  by (simp add: PYCAIRO_VERSION_HEX_def take_bit_push_bit take_bit_or)

text \<open>A number below \<open>2 ^ 31\<close> is read back from its word, also as a signed value.\<close>

lemma sint_small_of_nat:
  fixes v :: nat
  assumes "v < 2 ^ 31"
  shows "sint (of_nat v :: 32 word) = int v"
proof -
  have "int v < int (2 ^ 31)"
    using assms by (simp only: of_nat_less_iff)
  then have upper: "int v < 2 ^ 31"
    by simp
  have lower: "- (2 ^ 31) \<le> int v"
    by (rule order_trans [of _ 0]) simp_all
  have "signed_take_bit 31 (int v) = int v"
    using lower upper by (rule signed_take_bit_int_eq_self)
  then show ?thesis
    by (simp add: signed_of_nat)
qed

text \<open>A component in range is the word of a natural number.\<close>

lemma component_of_nat:
  assumes "component_below n x"
  shows "x = of_nat (nat (sint x))" and "int (nat (sint x)) = sint x" and "nat (sint x) < nat n"
proof -
  from assms have pos: "0 \<le> sint x" and less: "sint x < n"
    by (simp_all add: component_below_def)
  have "(of_nat (nat (sint x)) :: 32 word) = of_int (sint x)"
    using pos by (simp only: of_nat_nat)
  then show "x = of_nat (nat (sint x))"
    by simp
  show "int (nat (sint x)) = sint x"
    using pos by simp
  show "nat (sint x) < nat n"
    using pos less by simp
qed

text \<open>With the major component below 128 nothing reaches the sign bit.\<close>

lemma PYCAIRO_VERSION_HEX_sint:
  assumes "component_below 128 major" "component_below 256 minor" "component_below 256 micro"
  shows "sint (PYCAIRO_VERSION_HEX major minor micro)
           = sint major * 2 ^ 24 + sint minor * 2 ^ 16 + sint micro * 2 ^ 8"
proof -
  let ?M = "nat (sint major)" and ?m = "nat (sint minor)" and ?c = "nat (sint micro)"
  note M = component_of_nat [OF assms(1)] and m = component_of_nat [OF assms(2)]
    and c = component_of_nat [OF assms(3)]
  have bounds: "?M < 128" "?m < 256" "?c < 256"
    using M(3) m(3) c(3) by simp_all
  have small: "?M * 2 ^ 24 + ?m * 2 ^ 16 + ?c * 2 ^ 8 < 2 ^ 31"
    using bounds by simp
  have "PYCAIRO_VERSION_HEX major minor micro
          = PYCAIRO_VERSION_HEX (of_nat ?M) (of_nat ?m) (of_nat ?c)"
    using M(1) m(1) c(1) by simp
  also have "\<dots> = of_nat (?M * 2 ^ 24 + ?m * 2 ^ 16 + ?c * 2 ^ 8)"
    unfolding PYCAIRO_VERSION_HEX_of_nat packed_fields_sum [OF bounds(2,3)] ..
  finally have "sint (PYCAIRO_VERSION_HEX major minor micro)
                  = int (?M * 2 ^ 24 + ?m * 2 ^ 16 + ?c * 2 ^ 8)"
    using sint_small_of_nat [OF small] by simp
  also have "\<dots> = int ?M * 2 ^ 24 + int ?m * 2 ^ 16 + int ?c * 2 ^ 8"
    by simp
  finally show ?thesis
    unfolding M(2) m(2) c(2) .
qed


text \<open>One step of a lexicographic comparison: a digit \<open>a\<close> in front of a remainder below the base.\<close>

lemma lex_step_less:
  fixes a a' l l' N :: int
  assumes "0 \<le> l" "l < N" "0 \<le> l'" "l' < N"
  shows "(a * N + l < a' * N + l') = (a < a' \<or> (a = a' \<and> l < l'))"
proof (cases a a' rule: linorder_cases)
  case less
  from assms have N: "0 \<le> N" by simp
  from less have "a + 1 \<le> a'" by simp
  then have "(a + 1) * N \<le> a' * N" using N by (rule mult_right_mono)
  then have "a * N + N \<le> a' * N" by (simp add: algebra_simps)
  with assms(2,3) have "a * N + l < a' * N + l'" by simp
  with less show ?thesis by simp
next
  case equal
  then show ?thesis by simp
next
  case greater
  from assms have N: "0 \<le> N" by simp
  from greater have "a' + 1 \<le> a" by simp
  then have "(a' + 1) * N \<le> a * N" using N by (rule mult_right_mono)
  then have "a' * N + N \<le> a * N" by (simp add: algebra_simps)
  with assms(1,4) have "a' * N + l' < a * N + l" by simp
  with greater show ?thesis by simp
qed

lemma lex_step_eq:
  fixes a a' l l' N :: int
  assumes "0 \<le> l" "l < N" "0 \<le> l'" "l' < N"
  shows "(a * N + l = a' * N + l') = (a = a' \<and> l = l')"
  using lex_step_less [OF assms, of a a'] lex_step_less [OF assms(3,4,1,2), of a' a]
  by auto

lemma low_fields_bound:
  fixes minor micro :: int
  assumes "0 \<le> minor" "minor < 256" "0 \<le> micro" "micro < 256"
  shows "0 \<le> minor * 2 ^ 16 + micro * 2 ^ 8" and "minor * 2 ^ 16 + micro * 2 ^ 8 < 2 ^ 24"
  using assms by simp_all

lemma packed_less:
  fixes major minor micro major' minor' micro' :: int
  assumes "0 \<le> minor" "minor < 256" "0 \<le> micro" "micro < 256"
    and "0 \<le> minor'" "minor' < 256" "0 \<le> micro'" "micro' < 256"
  shows "(major * 2 ^ 24 + minor * 2 ^ 16 + micro * 2 ^ 8
            < major' * 2 ^ 24 + minor' * 2 ^ 16 + micro' * 2 ^ 8)
       = (major < major' \<or> (major = major' \<and> (minor < minor' \<or> (minor = minor' \<and> micro < micro'))))"
proof -
  have low: "(minor * 2 ^ 16 + micro * 2 ^ 8 < minor' * 2 ^ 16 + micro' * 2 ^ 8)
           = (minor < minor' \<or> (minor = minor' \<and> micro < micro'))"
    using assms(3,4,7,8) by (subst lex_step_less) simp_all
  have "(major * 2 ^ 24 + (minor * 2 ^ 16 + micro * 2 ^ 8)
          < major' * 2 ^ 24 + (minor' * 2 ^ 16 + micro' * 2 ^ 8))
      = (major < major' \<or> (major = major' \<and>
           minor * 2 ^ 16 + micro * 2 ^ 8 < minor' * 2 ^ 16 + micro' * 2 ^ 8))"
    by (rule lex_step_less) (rule low_fields_bound, fact, fact, fact, fact)+
  then show ?thesis
    unfolding low by (simp only: add.assoc)
qed

lemma packed_inj:
  fixes major minor micro major' minor' micro' :: int
  assumes "0 \<le> minor" "minor < 256" "0 \<le> micro" "micro < 256"
    and "0 \<le> minor'" "minor' < 256" "0 \<le> micro'" "micro' < 256"
  shows "(major * 2 ^ 24 + minor * 2 ^ 16 + micro * 2 ^ 8
            = major' * 2 ^ 24 + minor' * 2 ^ 16 + micro' * 2 ^ 8)
       = (major = major' \<and> minor = minor' \<and> micro = micro')"
proof -
  have low: "(minor * 2 ^ 16 + micro * 2 ^ 8 = minor' * 2 ^ 16 + micro' * 2 ^ 8)
           = (minor = minor' \<and> micro = micro')"
    using assms(3,4,7,8) by (subst lex_step_eq) simp_all
  have "(major * 2 ^ 24 + (minor * 2 ^ 16 + micro * 2 ^ 8)
          = major' * 2 ^ 24 + (minor' * 2 ^ 16 + micro' * 2 ^ 8))
      = (major = major' \<and>
           minor * 2 ^ 16 + micro * 2 ^ 8 = minor' * 2 ^ 16 + micro' * 2 ^ 8)"
    by (rule lex_step_eq) (rule low_fields_bound, fact, fact, fact, fact)+
  then show ?thesis
    unfolding low by (simp only: add.assoc)
qed

lemma PYCAIRO_VERSION_HEX_less:
  assumes "component_below 128 major" "component_below 256 minor" "component_below 256 micro"
    and "component_below 128 major'" "component_below 256 minor'" "component_below 256 micro'"
  shows "(PYCAIRO_VERSION_HEX major minor micro <s PYCAIRO_VERSION_HEX major' minor' micro')
       = (major <s major' \<or> (major = major' \<and> (minor <s minor' \<or> (minor = minor' \<and> micro <s micro'))))"
proof -
  have "(PYCAIRO_VERSION_HEX major minor micro <s PYCAIRO_VERSION_HEX major' minor' micro')
      = (sint major < sint major' \<or> (sint major = sint major' \<and>
          (sint minor < sint minor' \<or> (sint minor = sint minor' \<and> sint micro < sint micro'))))"
    unfolding word_sless_alt PYCAIRO_VERSION_HEX_sint [OF assms(1,2,3)]
      PYCAIRO_VERSION_HEX_sint [OF assms(4,5,6)]
    using assms(2,3,5,6) by (intro packed_less) (simp_all add: component_below_def)
  then show ?thesis
    by (simp only: word_sless_alt word_eq_iff_signed [where ?'a = int])
qed

lemma PYCAIRO_VERSION_HEX_inj:
  assumes "component_below 128 major" "component_below 256 minor" "component_below 256 micro"
    and "component_below 128 major'" "component_below 256 minor'" "component_below 256 micro'"
  shows "(PYCAIRO_VERSION_HEX major minor micro = PYCAIRO_VERSION_HEX major' minor' micro')
       = (major = major' \<and> minor = minor' \<and> micro = micro')"
proof -
  have "(sint (PYCAIRO_VERSION_HEX major minor micro) = sint (PYCAIRO_VERSION_HEX major' minor' micro'))
      = (sint major = sint major' \<and> sint minor = sint minor' \<and> sint micro = sint micro')"
    unfolding PYCAIRO_VERSION_HEX_sint [OF assms(1,2,3)] PYCAIRO_VERSION_HEX_sint [OF assms(4,5,6)]
    using assms(2,3,5,6) by (intro packed_inj) (simp_all add: component_below_def)
  then show ?thesis
    by (simp only: word_eq_iff_signed [where ?'a = int])
qed


subsection \<open>Claim C9\<close>

text \<open>
  C9 (as amended). The low 8 bits of \<^verbatim>\<open>PYCAIRO_VERSION_HEX\<close> are always zero. Whenever the
  major component is below 128 and the minor and the micro component are below 256 (none
  of them negative), the three components lie in disjoint fields and the value of the
  \<^verbatim>\<open>int\<close> expression equals \<open>major * 2^24 + minor * 2^16 + micro * 2^8\<close>; for two such
  versions the integer order of the values is the lexicographic order of the triples
  \<open>(major, minor, micro)\<close>, and equal values come from equal triples.
\<close>

theorem PYCAIRO_VERSION_HEX_packing:
  "take_bit 8 (PYCAIRO_VERSION_HEX major minor micro) = 0
   \<and> (component_below 128 major \<and> component_below 256 minor \<and> component_below 256 micro \<longrightarrow>
        sint (PYCAIRO_VERSION_HEX major minor micro)
          = sint major * 2 ^ 24 + sint minor * 2 ^ 16 + sint micro * 2 ^ 8)
   \<and> (component_below 128 major \<and> component_below 256 minor \<and> component_below 256 micro \<and>
      component_below 128 major' \<and> component_below 256 minor' \<and> component_below 256 micro' \<longrightarrow>
        ((PYCAIRO_VERSION_HEX major minor micro <s PYCAIRO_VERSION_HEX major' minor' micro')
           = (major <s major' \<or> (major = major' \<and> (minor <s minor' \<or> (minor = minor' \<and> micro <s micro')))))
      \<and> ((PYCAIRO_VERSION_HEX major minor micro = PYCAIRO_VERSION_HEX major' minor' micro')
           = (major = major' \<and> minor = minor' \<and> micro = micro')))"
  by (intro conjI impI PYCAIRO_VERSION_HEX_low_bits PYCAIRO_VERSION_HEX_sint
      PYCAIRO_VERSION_HEX_less PYCAIRO_VERSION_HEX_inj) simp_all

text \<open>Witness: pycairo 1.8.10 against pycairo 1.10.0.\<close>

theorem PYCAIRO_VERSION_HEX_packing_witness:
  "component_below 128 1 \<and> component_below 256 8 \<and> component_below 256 10 \<and> component_below 256 0
   \<and> take_bit 8 (PYCAIRO_VERSION_HEX 1 8 10) = 0
   \<and> sint (PYCAIRO_VERSION_HEX 1 8 10) = 1 * 2 ^ 24 + 8 * 2 ^ 16 + 10 * 2 ^ 8
   \<and> PYCAIRO_VERSION_HEX 1 8 10 <s PYCAIRO_VERSION_HEX 1 10 0
   \<and> PYCAIRO_VERSION_HEX 1 8 10 \<noteq> PYCAIRO_VERSION_HEX 1 10 0"
  using PYCAIRO_VERSION_HEX_packing
    [where major = 1 and minor = 8 and micro = 10 and major' = 1 and minor' = 10 and micro' = 0]
  by (simp add: component_below_def word_sless_alt)

text \<open>
  The claim as stated fails twice. The equation does not hold for every version: a minor
  component of 256 is shifted onto bit 24, where the major component already has its
  lowest bit, and OR keeps one of the two. And with every component below 256 the order
  can still differ: a major component of 128 is shifted onto the sign bit, so version
  128.0.0 has a negative value, below that of version 1.8.10. A negative component is
  below 256 as well, and its sign bits cover the fields above it (the word 4294967295 is
  the \<^verbatim>\<open>int\<close> -1).
\<close>

theorem PYCAIRO_VERSION_HEX_overflow_counterexample:
  "sint (PYCAIRO_VERSION_HEX 1 256 0) = 2 ^ 24
   \<and> sint (PYCAIRO_VERSION_HEX 1 256 0) \<noteq> 1 * 2 ^ 24 + 256 * 2 ^ 16 + 0 * 2 ^ 8
   \<and> component_below 256 128 \<and> component_below 256 0
   \<and> component_below 256 1 \<and> component_below 256 8 \<and> component_below 256 10
   \<and> sint (PYCAIRO_VERSION_HEX 128 0 0) = - (2 ^ 31)
   \<and> sint (PYCAIRO_VERSION_HEX 128 0 0) \<noteq> 128 * 2 ^ 24 + 0 * 2 ^ 16 + 0 * 2 ^ 8
   \<and> PYCAIRO_VERSION_HEX 128 0 0 <s PYCAIRO_VERSION_HEX 1 8 10
   \<and> \<not> ((128 :: 32 word) <s 1)
   \<and> sint (4294967295 :: 32 word) = - 1
   \<and> sint (PYCAIRO_VERSION_HEX 1 4294967295 0) = - (2 ^ 16)
   \<and> sint (PYCAIRO_VERSION_HEX 1 4294967295 0) \<noteq> 1 * 2 ^ 24 + (- 1) * 2 ^ 16 + 0 * 2 ^ 8"
  by (simp add: PYCAIRO_VERSION_HEX_def component_below_def word_sless_alt)


section \<open>Properties of \<^verbatim>\<open>initpoppler\<close>\<close>

lemmas api_defs =
  called_def Pycairo_IMPORT_def init_pygobject_def PyModule_New_def PyImport_AddModule_def
  update_module_dict_def Py_InitModule_def PyModule_GetDict_def py_poppler_register_classes_def
  py_poppler_add_constants_def Py_BuildValue_iii_def PyModule_AddObject_def PyErr_Occurred_def
  Py_FatalError_def register_poppler_module_def initpoppler_def

lemmas registration_defs =
  register_poppler_module_def Py_InitModule_def PyImport_AddModule_def update_module_dict_def
  PyModule_GetDict_def py_poppler_register_classes_def py_poppler_add_constants_def
  Py_BuildValue_iii_def PyModule_AddObject_def called_def

lemmas scenario_defs =
  ext_ok_def ext_raise_def ext_no_gobject_def ext_no_cairo_def ext_no_imports_def
  ext_big_version_def fresh_process_def

text \<open>An integer in the range of an \<^verbatim>\<open>int\<close> is read as it is.\<close>

lemma C_int_id:
  assumes "fits_C_int v"
  shows "C_int v = v"
proof -
  from assms have "0 \<le> v + 2 ^ 31" and "v + 2 ^ 31 < 2 ^ 32"
    by (simp_all add: fits_C_int_def)
  then have "(v + 2 ^ 31) mod 2 ^ 32 = v + 2 ^ 31"
    by (rule mod_pos_pos_trivial)
  then show ?thesis
    by (simp add: C_int_def)
qed

text \<open>Logging a call changes the log only.\<close>

lemma called_simps:
  "Pycairo_CAPI (called c s) = Pycairo_CAPI s"
  "sys_modules (called c s) = sys_modules s"
  "err_indicator (called c s) = err_indicator s"
  "calls (called c s) = calls s @ [c]"
  "module_attr (called c s) m name = module_attr s m name"
  by (simp_all add: called_def module_attr_def)

text \<open>The pycairo import leaves the registry alone and is one call.\<close>

lemma Pycairo_IMPORT_frame:
  "sys_modules (Pycairo_IMPORT ext s) = sys_modules s"
  "calls (Pycairo_IMPORT ext s) = calls s @ [Called_Pycairo_IMPORT]"
  "Pycairo_CAPI (Pycairo_IMPORT ext s) = (case cairo_CAPI ext of Inl e \<Rightarrow> None | Inr p \<Rightarrow> Some p)"
  by (simp_all add: Pycairo_IMPORT_def called_simps split: sum.splits)

text \<open>Lines 46 to 57: the calls they make, and what they leave in the state.\<close>

lemma calls_register_poppler_module:
  "calls (register_poppler_module ext s) = calls s @
     [Called_Py_InitModule ''poppler'', Called_PyModule_GetDict ''poppler'',
      Called_py_poppler_register_classes ''poppler'',
      Called_py_poppler_add_constants ''poppler'' ''POPPLER_'',
      Called_Py_BuildValue ''iii''
        [PYPOPPLER_MAJOR_VERSION ext, PYPOPPLER_MINOR_VERSION ext, PYPOPPLER_MICRO_VERSION ext],
      Called_PyModule_AddObject ''poppler'' ''pypoppler_version''
        (PyTuple [PyInt (C_int (PYPOPPLER_MAJOR_VERSION ext)),
                  PyInt (C_int (PYPOPPLER_MINOR_VERSION ext)),
                  PyInt (C_int (PYPOPPLER_MICRO_VERSION ext))])]"
  by (simp add: registration_defs split: option.splits prod.splits)

lemma namespace_register_poppler_module:
  "sys_modules (register_poppler_module ext s) ''poppler'' =
     Some (let d0 = add_methods (py_poppler_functions ext)
                      (case sys_modules s ''poppler'' of
                         None \<Rightarrow> PyModule_New ''poppler'' | Some d \<Rightarrow> d);
               (d1, e1) = register_classes_body ext d0 (err_indicator s);
               (d2, e2) = add_constants_body ext ''POPPLER_'' d1 e1
           in d2(''pypoppler_version'' \<mapsto>
                PyTuple [PyInt (C_int (PYPOPPLER_MAJOR_VERSION ext)),
                         PyInt (C_int (PYPOPPLER_MINOR_VERSION ext)),
                         PyInt (C_int (PYPOPPLER_MICRO_VERSION ext))]))"
  by (simp add: registration_defs split: option.splits prod.splits)

lemma version_register_poppler_module:
  "module_attr (register_poppler_module ext s) ''poppler'' ''pypoppler_version'' =
     Some (PyTuple [PyInt (C_int (PYPOPPLER_MAJOR_VERSION ext)),
                    PyInt (C_int (PYPOPPLER_MINOR_VERSION ext)),
                    PyInt (C_int (PYPOPPLER_MICRO_VERSION ext))])"
  by (simp add: module_attr_def namespace_register_poppler_module split: prod.splits)

lemma dom_register_poppler_module:
  "dom (sys_modules (register_poppler_module ext s)) = insert ''poppler'' (dom (sys_modules s))"
  by (auto simp add: registration_defs split: option.splits prod.splits if_splits)

lemma CAPI_register_poppler_module:
  "Pycairo_CAPI (register_poppler_module ext s) = Pycairo_CAPI s"
  by (simp add: registration_defs split: option.splits prod.splits)

text \<open>The three ways through \<^verbatim>\<open>initpoppler\<close>.\<close>

lemma initpoppler_cases:
  "initpoppler ext s =
     (case pygobject_error ext of
        Some e \<Rightarrow>
          Returned (called Called_init_pygobject ((Pycairo_IMPORT ext s)\<lparr>err_indicator := Some e\<rparr>))
      | None \<Rightarrow>
         (let s8 = register_poppler_module ext
                     (called Called_init_pygobject ((Pycairo_IMPORT ext s)\<lparr>err_indicator := None\<rparr>))
          in if err_indicator s8 \<noteq> None
             then Aborted ''can't initialise module globalkeys''
                    (called (Called_Py_FatalError ''can't initialise module globalkeys'')
                       (called Called_PyErr_Occurred s8))
             else Returned (called Called_PyErr_Occurred s8)))"
  by (simp add: initpoppler_def init_pygobject_def PyErr_Occurred_def Py_FatalError_def Let_def
      split: option.splits)

lemma state_after_registration_cases:
  "state_after_registration ext s =
     (case pygobject_error ext of
        Some e \<Rightarrow> None
      | None \<Rightarrow>
          Some (register_poppler_module ext
                  (called Called_init_pygobject ((Pycairo_IMPORT ext s)\<lparr>err_indicator := None\<rparr>))))"
  by (simp add: state_after_registration_def init_pygobject_def split: option.splits)


subsection \<open>Claim C1\<close>

text \<open>
  C1 (as amended). For every execution of \<^verbatim>\<open>initpoppler\<close> in which an error is pending after
  registration, that is at the check of line 59, the error is not reported to the caller:
  the function calls \<^verbatim>\<open>Py_FatalError("can't initialise module globalkeys")\<close>, which ends the
  process with the error still pending. The one initialization error that is propagated to
  the caller is that of \<^verbatim>\<open>init_pygobject\<close>: whenever \<^verbatim>\<open>initpoppler\<close> returns with an error
  pending, pygobject's initialisation has failed.
\<close>

theorem initpoppler_pending_error_is_fatal:
  "(state_after_registration ext s = Some s8 \<and> err_indicator s8 = Some e \<longrightarrow>
        is_Aborted (initpoppler ext s) \<and>
        message (initpoppler ext s) = ''can't initialise module globalkeys'' \<and>
        err_indicator (final (initpoppler ext s)) = Some e)
   \<and> (is_Returned (initpoppler ext s) \<and> err_indicator (final (initpoppler ext s)) \<noteq> None \<longrightarrow>
        pygobject_error ext \<noteq> None)"
proof (cases "pygobject_error ext")
  case None
  then show ?thesis
    by (auto simp add: initpoppler_cases state_after_registration_cases called_simps Let_def)
next
  case (Some e')
  then show ?thesis
    by (simp add: initpoppler_cases state_after_registration_cases)
qed

text \<open>
  Witness: the constant export raises, and the process is ended with that error pending;
  pygobject is missing, and the call returns with the import error pending.
\<close>

theorem initpoppler_pending_error_is_fatal_witness:
  "map_option err_indicator (state_after_registration ext_raise fresh_process)
     = Some (Some ''RuntimeError'')
   \<and> is_Aborted (initpoppler ext_raise fresh_process)
   \<and> message (initpoppler ext_raise fresh_process) = ''can't initialise module globalkeys''
   \<and> err_indicator (final (initpoppler ext_raise fresh_process)) = Some ''RuntimeError''
   \<and> is_Returned (initpoppler ext_no_gobject fresh_process)
   \<and> err_indicator (final (initpoppler ext_no_gobject fresh_process)) \<noteq> None
   \<and> pygobject_error ext_no_gobject \<noteq> None"
  using initpoppler_pending_error_is_fatal
      [where ext = ext_raise and s = fresh_process and e = "''RuntimeError''"
         and ?s8.0 = "the (state_after_registration ext_raise fresh_process)"]
    initpoppler_pending_error_is_fatal [where ext = ext_no_gobject and s = fresh_process]
  by (simp add: api_defs scenario_defs state_after_registration_def)

text \<open>
  The claim as stated fails when the constant export leaves an error: the error is pending
  after registration, and the call does not return to its caller, it ends the process.
\<close>

theorem initpoppler_error_not_propagated_counterexample:
  "map_option err_indicator (state_after_registration ext_raise fresh_process)
     = Some (Some ''RuntimeError'')
   \<and> initpoppler ext_raise fresh_process =
       Aborted ''can't initialise module globalkeys''
         (final (initpoppler ext_raise fresh_process))
   \<and> \<not> is_Returned (initpoppler ext_raise fresh_process)"
  by (simp add: api_defs scenario_defs state_after_registration_def)

text \<open>
  A missing pycairo alone is not such a run: the import of pygobject clears the error of the
  pycairo import, the module is set up with \<^verbatim>\<open>Pycairo_CAPI\<close> left \<^verbatim>\<open>NULL\<close>, and the call
  returns with no error pending.
\<close>

lemma initpoppler_without_pycairo:
  "is_Returned (initpoppler ext_no_cairo fresh_process)
   \<and> err_indicator (final (initpoppler ext_no_cairo fresh_process)) = None
   \<and> Pycairo_CAPI (final (initpoppler ext_no_cairo fresh_process)) = None
   \<and> length (calls (final (initpoppler ext_no_cairo fresh_process))) = 9"
  by (simp add: api_defs scenario_defs)


subsection \<open>Claim C2\<close>

text \<open>
  C2 (as amended). In every call of \<^verbatim>\<open>initpoppler\<close> in which \<^verbatim>\<open>init_pygobject\<close> succeeds,
  module initialisation (\<^verbatim>\<open>Py_InitModule("poppler", ...)\<close>), class registration on the
  dictionary of that module and constant export on that module with the prefix
  \<^verbatim>\<open>"POPPLER_"\<close> happen once each and in that order, and the namespace of the module is what
  they leave, in that order, plus the version tuple. They are not the only things the call
  does: before them it imports the pycairo C API and initialises pygobject, after them it
  stores \<^verbatim>\<open>pypoppler_version\<close> and checks for a pending error.
\<close>

theorem initpoppler_call_sequence:
  "pygobject_error ext = None \<Longrightarrow>
     calls (final (initpoppler ext s)) = calls s @
       [Called_Pycairo_IMPORT, Called_init_pygobject,
        Called_Py_InitModule ''poppler'', Called_PyModule_GetDict ''poppler'',
        Called_py_poppler_register_classes ''poppler'',
        Called_py_poppler_add_constants ''poppler'' ''POPPLER_'',
        Called_Py_BuildValue ''iii''
          [PYPOPPLER_MAJOR_VERSION ext, PYPOPPLER_MINOR_VERSION ext, PYPOPPLER_MICRO_VERSION ext],
        Called_PyModule_AddObject ''poppler'' ''pypoppler_version''
          (PyTuple [PyInt (C_int (PYPOPPLER_MAJOR_VERSION ext)),
                    PyInt (C_int (PYPOPPLER_MINOR_VERSION ext)),
                    PyInt (C_int (PYPOPPLER_MICRO_VERSION ext))]),
        Called_PyErr_Occurred] @
       (if is_Aborted (initpoppler ext s)
        then [Called_Py_FatalError ''can't initialise module globalkeys''] else [])
   \<and> sys_modules (final (initpoppler ext s)) ''poppler'' =
       Some (let d0 = add_methods (py_poppler_functions ext)
                        (case sys_modules s ''poppler'' of
                           None \<Rightarrow> PyModule_New ''poppler'' | Some d \<Rightarrow> d);
                 (d1, e1) = register_classes_body ext d0 None;
                 (d2, e2) = add_constants_body ext ''POPPLER_'' d1 e1
             in d2(''pypoppler_version'' \<mapsto>
                  PyTuple [PyInt (C_int (PYPOPPLER_MAJOR_VERSION ext)),
                           PyInt (C_int (PYPOPPLER_MINOR_VERSION ext)),
                           PyInt (C_int (PYPOPPLER_MICRO_VERSION ext))]))"
proof -
  assume ok: "pygobject_error ext = None"
  let ?s2 = "called Called_init_pygobject ((Pycairo_IMPORT ext s)\<lparr>err_indicator := None\<rparr>)"
  have start: "calls ?s2 = calls s @ [Called_Pycairo_IMPORT, Called_init_pygobject]"
    and registry: "sys_modules ?s2 ''poppler'' = sys_modules s ''poppler''"
    and pending: "err_indicator ?s2 = None"
    by (simp_all add: called_simps Pycairo_IMPORT_frame)
  have log: "calls (register_poppler_module ext ?s2) = calls s @
       [Called_Pycairo_IMPORT, Called_init_pygobject,
        Called_Py_InitModule ''poppler'', Called_PyModule_GetDict ''poppler'',
        Called_py_poppler_register_classes ''poppler'',
        Called_py_poppler_add_constants ''poppler'' ''POPPLER_'',
        Called_Py_BuildValue ''iii''
          [PYPOPPLER_MAJOR_VERSION ext, PYPOPPLER_MINOR_VERSION ext, PYPOPPLER_MICRO_VERSION ext],
        Called_PyModule_AddObject ''poppler'' ''pypoppler_version''
          (PyTuple [PyInt (C_int (PYPOPPLER_MAJOR_VERSION ext)),
                    PyInt (C_int (PYPOPPLER_MINOR_VERSION ext)),
                    PyInt (C_int (PYPOPPLER_MICRO_VERSION ext))])]"
    unfolding calls_register_poppler_module start by simp
  have namespace: "sys_modules (register_poppler_module ext ?s2) ''poppler'' =
       Some (let d0 = add_methods (py_poppler_functions ext)
                        (case sys_modules s ''poppler'' of
                           None \<Rightarrow> PyModule_New ''poppler'' | Some d \<Rightarrow> d);
                 (d1, e1) = register_classes_body ext d0 None;
                 (d2, e2) = add_constants_body ext ''POPPLER_'' d1 e1
             in d2(''pypoppler_version'' \<mapsto>
                  PyTuple [PyInt (C_int (PYPOPPLER_MAJOR_VERSION ext)),
                           PyInt (C_int (PYPOPPLER_MINOR_VERSION ext)),
                           PyInt (C_int (PYPOPPLER_MICRO_VERSION ext))]))"
    unfolding namespace_register_poppler_module registry pending by (rule refl)
  show ?thesis
  proof (cases "err_indicator (register_poppler_module ext ?s2)")
    case None
    with ok show ?thesis
      by (simp add: initpoppler_cases called_simps log namespace del: fun_upd_apply)
  next
    case (Some e)
    with ok show ?thesis
      by (simp add: initpoppler_cases called_simps log namespace del: fun_upd_apply)
  qed
qed

text \<open>
  Witness: the run in which the constant export raises. The class is in the module, and the
  log ends with the fatal error.
\<close>

theorem initpoppler_call_sequence_witness:
  "pygobject_error ext_raise = None
   \<and> calls (final (initpoppler ext_raise fresh_process)) =
       [Called_Pycairo_IMPORT, Called_init_pygobject,
        Called_Py_InitModule ''poppler'', Called_PyModule_GetDict ''poppler'',
        Called_py_poppler_register_classes ''poppler'',
        Called_py_poppler_add_constants ''poppler'' ''POPPLER_'',
        Called_Py_BuildValue ''iii'' [0, 12, 1],
        Called_PyModule_AddObject ''poppler'' ''pypoppler_version''
          (PyTuple [PyInt 0, PyInt 12, PyInt 1]),
        Called_PyErr_Occurred,
        Called_Py_FatalError ''can't initialise module globalkeys'']
   \<and> module_attr (final (initpoppler ext_raise fresh_process)) ''poppler'' ''Document''
       = Some (PyForeign 0)"
  using initpoppler_call_sequence [of ext_raise fresh_process]
  by (simp add: api_defs scenario_defs module_attr_def C_int_def)

text \<open>
  The claim as stated fails on the run in which everything works: the call does nine
  things, not the three roles only. Besides the class and the constant, it leaves the
  pycairo pointer set and the version tuple in the module.
\<close>

theorem initpoppler_more_than_three_roles_counterexample:
  "calls (final (initpoppler ext_ok fresh_process)) =
       [Called_Pycairo_IMPORT, Called_init_pygobject,
        Called_Py_InitModule ''poppler'', Called_PyModule_GetDict ''poppler'',
        Called_py_poppler_register_classes ''poppler'',
        Called_py_poppler_add_constants ''poppler'' ''POPPLER_'',
        Called_Py_BuildValue ''iii'' [0, 12, 1],
        Called_PyModule_AddObject ''poppler'' ''pypoppler_version''
          (PyTuple [PyInt 0, PyInt 12, PyInt 1]),
        Called_PyErr_Occurred]
   \<and> calls (final (initpoppler ext_ok fresh_process)) \<noteq>
       [Called_Py_InitModule ''poppler'',
        Called_py_poppler_register_classes ''poppler'',
        Called_py_poppler_add_constants ''poppler'' ''POPPLER_'']
   \<and> Pycairo_CAPI fresh_process = None
   \<and> Pycairo_CAPI (final (initpoppler ext_ok fresh_process)) = Some 1
   \<and> module_attr (final (initpoppler ext_ok fresh_process)) ''poppler'' ''Document''
       = Some (PyForeign 0)
   \<and> module_attr (final (initpoppler ext_ok fresh_process)) ''poppler'' ''ORIENTATION_PORTRAIT''
       = Some (PyInt 0)
   \<and> module_attr (final (initpoppler ext_ok fresh_process)) ''poppler'' ''pypoppler_version''
       = Some (PyTuple [PyInt 0, PyInt 12, PyInt 1])"
  by (simp add: api_defs scenario_defs module_attr_def C_int_def)


subsection \<open>Claim C3\<close>

text \<open>
  C3 (as amended). Every call of \<^verbatim>\<open>initpoppler\<close> assigns process-wide state: whatever it
  was before, the file-scope pointer \<^verbatim>\<open>Pycairo_CAPI\<close> holds the result of the pycairo import
  afterwards, also when the call returns early or ends the process. Every call in which
  \<^verbatim>\<open>init_pygobject\<close> succeeds, so that the call gets to make its module object, also writes
  the interpreter's module registry: afterwards the registry has the entry \<^verbatim>\<open>"poppler"\<close>
  besides the entries it had (and, the modules that pycairo and pygobject import being left
  out of the model, no other). No state of the binding belongs to a document instance.
\<close>

theorem initpoppler_writes_process_state:
  "Pycairo_CAPI (final (initpoppler ext s)) = (case cairo_CAPI ext of Inl e \<Rightarrow> None | Inr p \<Rightarrow> Some p)
   \<and> (pygobject_error ext = None \<longrightarrow>
        ''poppler'' \<in> dom (sys_modules (final (initpoppler ext s))) \<and>
        dom (sys_modules s) \<subseteq> dom (sys_modules (final (initpoppler ext s))) \<and>
        dom (sys_modules (final (initpoppler ext s))) = insert ''poppler'' (dom (sys_modules s)))"
proof (cases "pygobject_error ext")
  case None
  then show ?thesis
    by (simp add: initpoppler_cases Let_def called_simps CAPI_register_poppler_module
        dom_register_poppler_module Pycairo_IMPORT_frame subset_insertI)
next
  case (Some e)
  then show ?thesis
    by (simp add: initpoppler_cases called_simps Pycairo_IMPORT_frame)
qed

text \<open>Witness: in a fresh process both the pointer and the registry change.\<close>

theorem initpoppler_writes_process_state_witness:
  "pygobject_error ext_ok = None
   \<and> Pycairo_CAPI fresh_process = None
   \<and> Pycairo_CAPI (final (initpoppler ext_ok fresh_process)) = Some 1
   \<and> dom (sys_modules fresh_process) = {}
   \<and> dom (sys_modules (final (initpoppler ext_ok fresh_process))) = {''poppler''}"
  using initpoppler_writes_process_state [of ext_ok fresh_process]
  by (simp add: scenario_defs)

text \<open>
  The claim as stated fails when neither pycairo nor pygobject can be imported: the call
  returns from \<^verbatim>\<open>init_pygobject\<close> with the error pending, no module object is made, the
  registry is as it was, and the pointer is \<^verbatim>\<open>NULL\<close> as before.
\<close>

theorem initpoppler_early_return_counterexample:
  "is_Returned (initpoppler ext_no_imports fresh_process)
   \<and> err_indicator (final (initpoppler ext_no_imports fresh_process))
       = Some ''ImportError: could not import gobject''
   \<and> sys_modules (final (initpoppler ext_no_imports fresh_process)) ''poppler'' = None
   \<and> dom (sys_modules (final (initpoppler ext_no_imports fresh_process)))
       = dom (sys_modules fresh_process)
   \<and> Pycairo_CAPI (final (initpoppler ext_no_imports fresh_process)) = Pycairo_CAPI fresh_process
   \<and> calls (final (initpoppler ext_no_imports fresh_process))
       = [Called_Pycairo_IMPORT, Called_init_pygobject]"
  by (simp add: api_defs scenario_defs)


subsection \<open>Claim C10\<close>

text \<open>
  C10 (as amended). After a successful run of \<^verbatim>\<open>initpoppler\<close>, one that returns with no
  error pending, the module named \<^verbatim>\<open>"poppler"\<close> has the attribute \<^verbatim>\<open>pypoppler_version\<close>, and
  its value is the tuple of the three integers that the format \<^verbatim>\<open>"iii"\<close> reads of
  \<^verbatim>\<open>PYPOPPLER_MAJOR_VERSION\<close>, \<^verbatim>\<open>PYPOPPLER_MINOR_VERSION\<close> and \<^verbatim>\<open>PYPOPPLER_MICRO_VERSION\<close>:
  exactly the three macro values whenever each of them is in the range of a 32-bit C
  \<^verbatim>\<open>int\<close>.
\<close>

theorem initpoppler_exports_pypoppler_version:
  "initpoppler ext s = Returned s' \<Longrightarrow> err_indicator s' = None \<Longrightarrow>
     module_attr s' ''poppler'' ''pypoppler_version'' =
       Some (PyTuple [PyInt (C_int (PYPOPPLER_MAJOR_VERSION ext)),
                      PyInt (C_int (PYPOPPLER_MINOR_VERSION ext)),
                      PyInt (C_int (PYPOPPLER_MICRO_VERSION ext))])
     \<and> (fits_C_int (PYPOPPLER_MAJOR_VERSION ext) \<and> fits_C_int (PYPOPPLER_MINOR_VERSION ext) \<and>
        fits_C_int (PYPOPPLER_MICRO_VERSION ext) \<longrightarrow>
          module_attr s' ''poppler'' ''pypoppler_version'' =
            Some (PyTuple [PyInt (PYPOPPLER_MAJOR_VERSION ext), PyInt (PYPOPPLER_MINOR_VERSION ext),
                           PyInt (PYPOPPLER_MICRO_VERSION ext)]))"
proof (cases "pygobject_error ext")
  case None
  assume "initpoppler ext s = Returned s'"
  with None have "module_attr s' ''poppler'' ''pypoppler_version'' =
       Some (PyTuple [PyInt (C_int (PYPOPPLER_MAJOR_VERSION ext)),
                      PyInt (C_int (PYPOPPLER_MINOR_VERSION ext)),
                      PyInt (C_int (PYPOPPLER_MICRO_VERSION ext))])"
    by (auto simp add: initpoppler_cases Let_def called_simps version_register_poppler_module
        split: if_splits)
  then show ?thesis
    by (simp add: C_int_id)
next
  case (Some e)
  assume "initpoppler ext s = Returned s'" and "err_indicator s' = None"
  with Some show ?thesis
    by (auto simp add: initpoppler_cases called_simps)
qed

text \<open>
  Witness: the run in which everything works, for pypoppler 0.12.1, and the run without
  pycairo, which is successful as well.
\<close>

theorem initpoppler_exports_pypoppler_version_witness:
  "is_Returned (initpoppler ext_ok fresh_process)
   \<and> err_indicator (final (initpoppler ext_ok fresh_process)) = None
   \<and> fits_C_int 0 \<and> fits_C_int 12 \<and> fits_C_int 1
   \<and> module_attr (final (initpoppler ext_ok fresh_process)) ''poppler'' ''pypoppler_version''
       = Some (PyTuple [PyInt 0, PyInt 12, PyInt 1])
   \<and> is_Returned (initpoppler ext_no_cairo fresh_process)
   \<and> err_indicator (final (initpoppler ext_no_cairo fresh_process)) = None
   \<and> module_attr (final (initpoppler ext_no_cairo fresh_process)) ''poppler'' ''pypoppler_version''
       = Some (PyTuple [PyInt 0, PyInt 12, PyInt 1])"
  using initpoppler_exports_pypoppler_version
      [of ext_ok fresh_process "final (initpoppler ext_ok fresh_process)"]
    initpoppler_exports_pypoppler_version
      [of ext_no_cairo fresh_process "final (initpoppler ext_no_cairo fresh_process)"]
  by (simp add: api_defs scenario_defs fits_C_int_def C_int_def)

text \<open>
  The claim as stated fails for a version macro that is not an \<^verbatim>\<open>int\<close>: with the major
  version \<open>2 ^ 31\<close> the run is successful, and the first integer of the tuple is \<open>- 2 ^ 31\<close>.
\<close>

theorem initpoppler_version_truncated_counterexample:
  "PYPOPPLER_MAJOR_VERSION ext_big_version = 2147483648
   \<and> is_Returned (initpoppler ext_big_version fresh_process)
   \<and> err_indicator (final (initpoppler ext_big_version fresh_process)) = None
   \<and> module_attr (final (initpoppler ext_big_version fresh_process)) ''poppler''
         ''pypoppler_version''
       = Some (PyTuple [PyInt (- 2147483648), PyInt 12, PyInt 1])
   \<and> module_attr (final (initpoppler ext_big_version fresh_process)) ''poppler''
         ''pypoppler_version''
       \<noteq> Some (PyTuple [PyInt (PYPOPPLER_MAJOR_VERSION ext_big_version),
                         PyInt (PYPOPPLER_MINOR_VERSION ext_big_version),
                         PyInt (PYPOPPLER_MICRO_VERSION ext_big_version)])"
  by (simp add: api_defs scenario_defs module_attr_def C_int_def)

end
